theory Spec2Isabelle
  imports Main "HOL-Library.Char_ord"
begin

section \<open>Python values and strings\<close>

text \<open>
  The tool of \<^verbatim>\<open>server.py\<close> is dynamically typed. A cell of a result row is observed by
  the code in three ways only: it is copied, it is tested for truth (\<^verbatim>\<open>if v\<close>) and it is
  formatted (\<^verbatim>\<open>str(v)\<close>, \<^verbatim>\<open>f"{v}"\<close>). \<open>PyObj\<close> stands for any other object (a float, a
  date, a numpy scalar) through exactly these two observations: its truth value and its
  text. A float NaN, for instance, is \<open>PyObj True ''nan''\<close>.

  Strings are byte strings: a character outside ASCII is its UTF-8 bytes.
\<close>

datatype pyval = PyNone | PyBool bool | PyInt int | PyStr string | PyObj bool string

fun truthy :: "pyval \<Rightarrow> bool" where
  "truthy PyNone = False"
| "truthy (PyBool b) = b"
| "truthy (PyInt i) = (i \<noteq> 0)"
| "truthy (PyStr s) = (s \<noteq> [])"
| "truthy (PyObj b s) = b"

definition digit_char :: "nat \<Rightarrow> char" where
  "digit_char n = ''0123456789'' ! n"

fun digits :: "nat \<Rightarrow> string" where
  "digits n = (if n < 10 then [digit_char n] else digits (n div 10) @ [digit_char (n mod 10)])"

declare digits.simps [simp del]

definition str_int :: "int \<Rightarrow> string" where
  "str_int i = (if i < 0 then ''-'' @ digits (nat (- i)) else digits (nat i))"

fun py_str :: "pyval \<Rightarrow> string" where
  "py_str PyNone = ''None''"
| "py_str (PyBool b) = (if b then ''True'' else ''False'')"
| "py_str (PyInt i) = str_int i"
| "py_str (PyStr s) = s"
| "py_str (PyObj b s) = s"

text \<open>Truth value and f-string text of an \<^verbatim>\<open>Optional[str]\<close> parameter.\<close>

fun truthy_opt :: "string option \<Rightarrow> bool" where
  "truthy_opt None = False"
| "truthy_opt (Some s) = (s \<noteq> [])"

fun str_opt :: "string option \<Rightarrow> string" where
  "str_opt None = ''None''"
| "str_opt (Some s) = s"

text \<open>
  \<^verbatim>\<open>str.lower\<close> is a builtin of Python. It follows the case mappings of Unicode, whose
  tables are not part of this repository, so the tool below takes it as the parameter
  \<open>lower\<close>. What is known of it without the tables is its action on ASCII text
  (\<open>ascii_exact\<close>): the letters A to Z become a to z and every other ASCII character stays.
  The examples, whose texts are ASCII, pass \<open>ascii_lower\<close> for it.
\<close>

definition is_upper :: "char \<Rightarrow> bool" where
  "is_upper c \<longleftrightarrow> CHR ''A'' \<le> c \<and> c \<le> CHR ''Z''"

definition lower_char :: "char \<Rightarrow> char" where
  "lower_char c = (if is_upper c then char_of (of_char c + (32::nat)) else c)"

definition ascii_lower :: "string \<Rightarrow> string" where
  "ascii_lower s = map lower_char s"

definition is_ascii :: "string \<Rightarrow> bool" where
  "is_ascii s \<longleftrightarrow> list_all (\<lambda>c. (of_char c :: nat) < 128) s"

definition ascii_exact :: "(string \<Rightarrow> string) \<Rightarrow> bool" where
  "ascii_exact lower \<longleftrightarrow> (\<forall>s. is_ascii s \<longrightarrow> lower s = ascii_lower s)"

text \<open>
  The letters of a text: each is the run of bytes that encodes one character, whose length
  is told by its first byte.
\<close>

definition utf8_len :: "char \<Rightarrow> nat" where
  "utf8_len c =
     (if (of_char c :: nat) < 0xC0 then 1
      else if (of_char c :: nat) < 0xE0 then 2
      else if (of_char c :: nat) < 0xF0 then 3 else 4)"

fun letters :: "string \<Rightarrow> string list" where
  "letters [] = []"
| "letters (c # s) = (c # take (utf8_len c - 1) s) # letters (drop (utf8_len c - 1) s)"

text \<open>The Greek capital sigma U+03A3, small sigma U+03C3 and final small sigma U+03C2.\<close>

definition capital_sigma :: string where
  "capital_sigma = [CHR 0xCE, CHR 0xA3]"

definition small_sigma :: string where
  "small_sigma = [CHR 0xCF, CHR 0x83]"

definition final_sigma :: string where
  "final_sigma = [CHR 0xCF, CHR 0x82]"

text \<open>
  Two texts are equal up to letter case when they have the same number of letters and,
  letter by letter, the same letter or the capital and the small form of one letter. The
  pairs of a capital and its small form listed here are those of the ASCII letters and of
  the Greek sigma; Unicode has many more, which the statements below do not need.
\<close>

definition case_pair :: "string \<Rightarrow> string \<Rightarrow> bool" where
  "case_pair u l \<longleftrightarrow>
     (case u of
        [c] \<Rightarrow> is_upper c \<and> l = [lower_char c]
      | _ \<Rightarrow> u = capital_sigma \<and> l = small_sigma)"

definition same_letter :: "string \<Rightarrow> string \<Rightarrow> bool" where
  "same_letter x y \<longleftrightarrow> x = y \<or> case_pair x y \<or> case_pair y x"

definition eq_up_to_case :: "string \<Rightarrow> string \<Rightarrow> bool" where
  "eq_up_to_case s t \<longleftrightarrow> list_all2 same_letter (letters s) (letters t)"

text \<open>The en dash U+2013 of the salary format, in UTF-8.\<close>

definition en_dash :: string where
  "en_dash = [CHR 0xE2, CHR 0x80, CHR 0x93]"

section \<open>Data model\<close>

text \<open>
  Modelled from the spec: the row type of the frame that \<^verbatim>\<open>jobspy.scrape_jobs\<close> returns is
  not part of this repository. A row is a record with the columns that the loop reads,
  each holding a Python value (null is \<open>PyNone\<close>).
\<close>

record raw_listing =
  title :: pyval
  company :: pyval
  location :: pyval
  date_posted :: pyval
  job_type :: pyval
  experience_range :: pyval
  is_remote :: pyval
  min_amount :: pyval
  max_amount :: pyval
  currency :: pyval
  interval :: pyval
  site :: pyval
  job_url :: pyval
  company_url :: pyval

text \<open>
  The keyword arguments of the backend call. \<open>country_indeed = None\<close> is the key left out
  of \<^verbatim>\<open>scrape_kwargs\<close>.
\<close>

record scrape_kwargs =
  site_name :: "string list"
  search_term :: "string option"
  google_search_term :: "string option"
  location :: "string option"
  results_wanted :: int
  hours_old :: int
  country_indeed :: "string option"

text \<open>A listing of the output is a Python dict, kept as an association list in key order.\<close>

type_synonym normalized_listing = "(string \<times> pyval) list"

record result_set =
  Count :: int
  Jobs :: "normalized_listing list"

text \<open>
  The tool raises \<^verbatim>\<open>ValueError\<close> itself; an exception of the backend, of any type \<open>'e\<close>,
  propagates unchanged.
\<close>

datatype 'e error = ValueError string | BackendError 'e

section \<open>The tool\<close>

text \<open>
  The tool is the single function \<^verbatim>\<open>scrape_jobs_tool\<close> of \<^verbatim>\<open>server.py\<close>. It is cut here at
  the backend call of line 95 into the part before it and the part after it.

  Lines 72 to 76: the Google-style query, from the lower-cased boards.
\<close>

definition google_search_term_of :: "string list \<Rightarrow> string option \<Rightarrow> string option \<Rightarrow> string option" where
  "google_search_term_of site_names RoleKeywords Location =
     (if ''google'' \<in> set site_names \<and> truthy_opt RoleKeywords
      then Some (str_opt RoleKeywords @ '' jobs''
                 @ (if truthy_opt Location then '' in '' @ str_opt Location else ''''))
      else None)"

text \<open>
  Lines 66 to 93: the keyword arguments of the backend call, or the \<^verbatim>\<open>ValueError\<close> of line
  89. The local names \<^verbatim>\<open>site_name\<close> and \<^verbatim>\<open>hours_old\<close> are \<open>site_names\<close> and \<open>hours\<close> here, and
  \<^verbatim>\<open>b.lower()\<close> is \<open>lower b\<close>.
\<close>

definition request_normalizer ::
  "(string \<Rightarrow> string) \<Rightarrow> string list \<Rightarrow> string option \<Rightarrow> string option \<Rightarrow> int \<Rightarrow> int
     \<Rightarrow> string option \<Rightarrow> 'e error + scrape_kwargs" where
  "request_normalizer lower Boards RoleKeywords Location ResultCount PostedWithinDays Country =
     (let site_names = map lower Boards;
          hours = PostedWithinDays * 24;
          kwargs = \<lparr>site_name = site_names,
                    search_term = RoleKeywords,
                    google_search_term = google_search_term_of site_names RoleKeywords Location,
                    scrape_kwargs.location = Location,
                    results_wanted = ResultCount,
                    hours_old = hours,
                    country_indeed = None\<rparr>
      in if ''indeed'' \<in> set site_names
         then (if \<not> truthy_opt Country
               then Inl (ValueError
                 ''Country is required when using Indeed. Examples: 'us', 'de', 'pk', 'uk'.'')
               else Inr (kwargs\<lparr>country_indeed := map_option lower Country\<rparr>))
         else Inr kwargs)"

text \<open>Lines 101 to 119: the body of the loop, which makes the listing of one row.\<close>

definition normalize_row :: "raw_listing \<Rightarrow> normalized_listing" where
  "normalize_row row =
     (let salary =
        (if truthy (min_amount row) \<and> truthy (max_amount row)
         then PyStr (py_str (min_amount row) @ en_dash @ py_str (max_amount row) @ '' ''
                     @ py_str (currency row) @ '' ('' @ py_str (interval row) @ '')'')
         else PyNone)
      in [(''Title'', title row),
          (''Company'', company row),
          (''Location'', raw_listing.location row),
          (''PostedDate'', PyStr (py_str (date_posted row))),
          (''JobType'', job_type row),
          (''ExperienceRange'', experience_range row),
          (''Remote'', is_remote row),
          (''Salary'', salary),
          (''Board'', site row),
          (''JobURL'', job_url row),
          (''CompanyURL'', company_url row)])"

text \<open>
  Lines 98 to 124: the loop appends one listing per row to \<^verbatim>\<open>results\<close>, which starts empty
  at every call, and the tool returns the count and the listings.
\<close>

fun iterrows_loop :: "raw_listing list \<Rightarrow> normalized_listing list \<Rightarrow> normalized_listing list" where
  "iterrows_loop [] results = results"
| "iterrows_loop (row # jobs) results = iterrows_loop jobs (results @ [normalize_row row])"

definition result_normalizer :: "raw_listing list \<Rightarrow> result_set" where
  "result_normalizer jobs =
     (let results = iterrows_loop jobs []
      in \<lparr>Count = int (length results), Jobs = results\<rparr>)"

text \<open>
  The whole tool. The backend \<^verbatim>\<open>scrape_jobs\<close> is a parameter, as \<open>lower\<close> is: called with the
  keyword arguments, it returns the rows or fails. The first component of the result is the list
  of backend calls that were made, each with its keyword arguments; the second is the
  exception raised or the value returned.
\<close>

definition scrape_jobs_tool ::
  "(string \<Rightarrow> string) \<Rightarrow> (scrape_kwargs \<Rightarrow> 'e + raw_listing list) \<Rightarrow> string list
     \<Rightarrow> string option \<Rightarrow> string option \<Rightarrow> int \<Rightarrow> int \<Rightarrow> string option
     \<Rightarrow> scrape_kwargs list \<times> ('e error + result_set)" where
  "scrape_jobs_tool lower scrape_jobs Boards RoleKeywords Location ResultCount PostedWithinDays
     Country =
     (case request_normalizer lower Boards RoleKeywords Location ResultCount PostedWithinDays
             Country of
        Inl err \<Rightarrow> ([], Inl err)
      | Inr kwargs \<Rightarrow>
          (case scrape_jobs kwargs of
             Inl e \<Rightarrow> ([kwargs], Inl (BackendError e))
           | Inr jobs \<Rightarrow> ([kwargs], Inr (result_normalizer jobs))))"

text \<open>
  Lines 98 to 124 once more, statement by statement on the local variables \<^verbatim>\<open>jobs\<close>,
  \<^verbatim>\<open>row\<close> and \<^verbatim>\<open>results\<close>. The frame may hold anything before line 98, also what an
  earlier run has left in it, and it may have more variables than these three.
\<close>

record frame =
  v_jobs :: "raw_listing list"
  v_row :: raw_listing
  v_results :: "normalized_listing list"

definition loop_body :: "raw_listing \<Rightarrow> 'a frame_scheme \<Rightarrow> 'a frame_scheme" where
  "loop_body row st =
     (let st1 = st\<lparr>v_row := row\<rparr>
      in st1\<lparr>v_results := v_results st1 @ [normalize_row (v_row st1)]\<rparr>)"

fun for_each_row :: "raw_listing list \<Rightarrow> 'a frame_scheme \<Rightarrow> 'a frame_scheme" where
  "for_each_row [] st = st"
| "for_each_row (row # rows) st = for_each_row rows (loop_body row st)"

definition run_result_normalizer :: "'a frame_scheme \<Rightarrow> 'a frame_scheme \<times> result_set" where
  "run_result_normalizer st =
     (let st1 = st\<lparr>v_results := []\<rparr>;
          st2 = for_each_row (v_jobs st1) st1
      in (st2, \<lparr>Count = int (length (v_results st2)), Jobs = v_results st2\<rparr>))"

section \<open>Examples\<close>

text \<open>
  Rows, keyword arguments, backends, a frame and a lower-casing function used in examples.
\<close>

definition example_row :: raw_listing where
  "example_row =
     \<lparr>title = PyStr ''Backend Engineer'',
      company = PyStr ''Acme'',
      raw_listing.location = PyStr ''Hanoi'',
      date_posted = PyObj True ''2025-01-15'',
      job_type = PyStr ''fulltime'',
      experience_range = PyNone,
      is_remote = PyBool False,
      min_amount = PyInt 80000,
      max_amount = PyInt 100000,
      currency = PyStr ''USD'',
      interval = PyStr ''yearly'',
      site = PyStr ''linkedin'',
      job_url = PyStr ''https://example.com/jobs/1'',
      company_url = PyNone\<rparr>"

definition linkedin_google_kwargs :: scrape_kwargs where
  "linkedin_google_kwargs =
     \<lparr>site_name = [''linkedin'', ''google''],
      search_term = None,
      google_search_term = None,
      scrape_kwargs.location = None,
      results_wanted = 20,
      hours_old = 168,
      country_indeed = None\<rparr>"

definition no_jobs :: "scrape_kwargs \<Rightarrow> unit + raw_listing list" where
  "no_jobs kwargs = Inr []"

definition failing_backend :: "scrape_kwargs \<Rightarrow> unit + raw_listing list" where
  "failing_backend kwargs = Inl ()"

text \<open>
  A row whose maximum amount is missing, as a frame of pandas holds it in a numeric column:
  the float NaN, which is truthy and whose text is \<^verbatim>\<open>nan\<close>; the minimum is the float 80000.0.
\<close>

definition row_with_nan_max :: raw_listing where
  "row_with_nan_max =
     example_row\<lparr>min_amount := PyObj True ''80000.0'', max_amount := PyObj True ''nan''\<rparr>"

text \<open>A frame in which an earlier run over \<open>example_row\<close> has left its results.\<close>

definition used_frame :: frame where
  "used_frame =
     \<lparr>v_jobs = [example_row, example_row],
      v_row = example_row,
      v_results = [normalize_row example_row]\<rparr>"

text \<open>
  \<^verbatim>\<open>str.lower\<close> at ASCII text and at the two texts \<^verbatim>\<open>a\<close> followed by a capital sigma and
  \<^verbatim>\<open>a\<close> followed by a small sigma: Python turns the capital sigma at the end of a word
  into the final small sigma, and leaves the second text as it is.
\<close>

definition lower_example :: "string \<Rightarrow> string" where
  "lower_example s =
     (if s = ''a'' @ capital_sigma then ''a'' @ final_sigma else ascii_lower s)"

section \<open>Auxiliary facts\<close>

lemma digits_small: "n < 10 \<Longrightarrow> digits n = [digit_char n]"
  by (simp add: digits.simps)

lemma digits_large: "\<not> n < 10 \<Longrightarrow> digits n = digits (n div 10) @ [digit_char (n mod 10)]"
  by (subst digits.simps) simp

lemmas str_eval = digits_small digits_large digit_char_def str_int_def en_dash_def

lemma of_char_lower_char:
  "(of_char (lower_char c) :: nat) =
     (if is_upper c then of_char c + 32 else of_char c)"
  by (simp add: lower_char_def is_upper_def less_eq_char_def)

lemma is_upper_iff: "is_upper c \<longleftrightarrow> 65 \<le> (of_char c :: nat) \<and> (of_char c :: nat) \<le> 90"
  by (simp add: is_upper_def less_eq_char_def)

lemma not_upper_lower_char: "\<not> is_upper (lower_char c)"
  by (simp add: is_upper_iff of_char_lower_char)

lemma lower_char_fixed: "\<not> is_upper c \<Longrightarrow> lower_char c = c"
  by (simp add: lower_char_def)

lemma lower_char_eq_iff:
  "lower_char c = lower_char d \<longleftrightarrow>
     c = d \<or> is_upper c \<and> d = lower_char c \<or> is_upper d \<and> c = lower_char d"
proof -
  have "lower_char c = lower_char d \<longleftrightarrow> (of_char (lower_char c) :: nat) = of_char (lower_char d)"
    by simp
  also have "\<dots> \<longleftrightarrow>
      (of_char c :: nat) = of_char d
      \<or> is_upper c \<and> (of_char d :: nat) = of_char (lower_char c)
      \<or> is_upper d \<and> (of_char c :: nat) = of_char (lower_char d)"
    unfolding of_char_lower_char by (auto simp: is_upper_iff)
  also have "\<dots> \<longleftrightarrow> c = d \<or> is_upper c \<and> d = lower_char c \<or> is_upper d \<and> c = lower_char d"
    by simp
  finally show ?thesis .
qed

lemma same_letter_single: "same_letter [c] [d] \<longleftrightarrow> lower_char c = lower_char d"
  by (auto simp: same_letter_def case_pair_def lower_char_eq_iff)

lemma letters_ascii: "is_ascii s \<Longrightarrow> letters s = map (\<lambda>c. [c]) s"
  by (induction s) (simp_all add: is_ascii_def utf8_len_def)

lemma eq_up_to_case_ascii:
  assumes "is_ascii s" and "is_ascii t"
  shows "eq_up_to_case s t \<longleftrightarrow> ascii_lower s = ascii_lower t"
proof -
  have "eq_up_to_case s t \<longleftrightarrow> list_all2 (\<lambda>c d. same_letter [c] [d]) s t"
    using assms by (simp add: eq_up_to_case_def letters_ascii list_all2_map1 list_all2_map2)
  also have "\<dots> \<longleftrightarrow> list_all2 (=) (map lower_char s) (map lower_char t)"
    by (simp add: same_letter_single list_all2_map1 list_all2_map2)
  also have "\<dots> \<longleftrightarrow> ascii_lower s = ascii_lower t"
    by (simp add: ascii_lower_def list.rel_eq)
  finally show ?thesis .
qed

lemma ascii_lower_no_upper: "\<forall>c \<in> set (ascii_lower s). \<not> is_upper c"
  by (auto simp: ascii_lower_def not_upper_lower_char)

lemma ascii_lower_fixed: "\<forall>c \<in> set s. \<not> is_upper c \<Longrightarrow> ascii_lower s = s"
  by (simp add: ascii_lower_def lower_char_fixed map_idI)

lemmas lower_eval =
  ascii_lower_def lower_char_def is_upper_def less_eq_char_def char_of_def bit_iff_odd

lemmas case_eval =
  eq_up_to_case_def same_letter_def case_pair_def utf8_len_def
  capital_sigma_def small_sigma_def final_sigma_def

lemma iterrows_loop_eq: "iterrows_loop jobs results = results @ map normalize_row jobs"
  by (induction jobs arbitrary: results) simp_all

lemma result_normalizer_eq:
  "result_normalizer jobs = \<lparr>Count = int (length jobs), Jobs = map normalize_row jobs\<rparr>"
  by (simp add: result_normalizer_def iterrows_loop_eq)

lemma for_each_row_results:
  "v_results (for_each_row rows st) = v_results st @ map normalize_row rows"
  by (induction rows arbitrary: st) (simp_all add: loop_body_def Let_def)

lemma for_each_row_jobs: "v_jobs (for_each_row rows st) = v_jobs st"
  by (induction rows arbitrary: st) (simp_all add: loop_body_def Let_def)

lemma scrape_jobs_tool_calls_eq:
  "fst (scrape_jobs_tool lower scrape_jobs Boards RoleKeywords Location ResultCount
          PostedWithinDays Country)
     = (if ''indeed'' \<in> set (map lower Boards) \<and> \<not> truthy_opt Country then []
        else [\<lparr>site_name = map lower Boards,
               search_term = RoleKeywords,
               google_search_term = google_search_term_of (map lower Boards) RoleKeywords Location,
               scrape_kwargs.location = Location,
               results_wanted = ResultCount,
               hours_old = PostedWithinDays * 24,
               country_indeed =
                 (if ''indeed'' \<in> set (map lower Boards) then map_option lower Country
                  else None)\<rparr>])"
  by (simp add: scrape_jobs_tool_def request_normalizer_def Let_def split: sum.splits)

lemma scrape_jobs_tool_no_indeed:
  assumes "''indeed'' \<notin> set (map lower Boards)"
  shows "scrape_jobs_tool lower scrape_jobs Boards RoleKeywords Location ResultCount
           PostedWithinDays Country
     = (let kw = \<lparr>site_name = map lower Boards,
                   search_term = RoleKeywords,
                   google_search_term = google_search_term_of (map lower Boards) RoleKeywords Location,
                   scrape_kwargs.location = Location,
                   results_wanted = ResultCount,
                   hours_old = PostedWithinDays * 24,
                   country_indeed = None\<rparr>
        in ([kw], case scrape_jobs kw of Inl e \<Rightarrow> Inl (BackendError e)
                  | Inr jobs \<Rightarrow> Inr (result_normalizer jobs)))"
  using assms
  by (simp add: scrape_jobs_tool_def request_normalizer_def Let_def split: sum.splits)

section \<open>Request side\<close>

text \<open>
  Claim C1. When the lower-cased board list contains \<open>''indeed''\<close> and \<^verbatim>\<open>Country\<close> is
  \<^verbatim>\<open>None\<close> or the empty string, the tool raises the \<^verbatim>\<open>ValueError\<close> whose message names
  Country, and the list of backend calls is empty: the backend, whatever it would do, is
  never invoked.
\<close>

theorem indeed_without_country_raises:
  assumes "''indeed'' \<in> set (map lower Boards)"
    and "Country = None \<or> Country = Some ''''"
  shows "scrape_jobs_tool lower scrape_jobs Boards RoleKeywords Location ResultCount PostedWithinDays Country
           = ([], Inl (ValueError
               ''Country is required when using Indeed. Examples: 'us', 'de', 'pk', 'uk'.''))"
proof -
  from assms(2) have "\<not> truthy_opt Country" by auto
  with assms(1) show ?thesis
    by (simp add: scrape_jobs_tool_def request_normalizer_def Let_def)
qed

theorem indeed_without_country_raises_witness:
  "''indeed'' \<in> set (map ascii_lower [''Indeed'', ''LinkedIn'', ''Google''])
   \<and> scrape_jobs_tool ascii_lower no_jobs
        [''Indeed'', ''LinkedIn'', ''Google''] (Some ''Backend Engineer'') (Some ''Hanoi'') 20 7 (Some '''')
       = ([], Inl (ValueError
               ''Country is required when using Indeed. Examples: 'us', 'de', 'pk', 'uk'.''))"
proof -
  have h: "''indeed'' \<in> set (map ascii_lower [''Indeed'', ''LinkedIn'', ''Google''])"
    by (simp add: lower_eval)
  have c: "Some '''' = None \<or> Some '''' = Some ''''" by simp
  show ?thesis
    using h indeed_without_country_raises [OF h c] by simp
qed

text \<open>
  Claim C3, counterexample. The claim says that the board list produced for a request is
  deduplicated and not empty. The board list passed to the backend is the list of the
  \<^verbatim>\<open>Boards\<close> entries lower-cased, with nothing removed and no check for emptiness:
  \<^verbatim>\<open>["LinkedIn", "linkedin"]\<close> gives a list with a repeated identifier, and \<^verbatim>\<open>[]\<close> gives
  the empty list.
\<close>

theorem board_list_counterexample:
  "map site_name (fst (scrape_jobs_tool ascii_lower no_jobs
                         [''LinkedIn'', ''linkedin''] None None 20 7 None))
     = [[''linkedin'', ''linkedin'']]
   \<and> map site_name (fst (scrape_jobs_tool ascii_lower no_jobs
                         [] None None 20 7 None))
     = [[]]"
  by (simp add: scrape_jobs_tool_calls_eq lower_eval)

text \<open>
  Claim C3, as amended. In every backend call the board list has one lower-cased identifier
  per entry of \<^verbatim>\<open>Boards\<close>, in the same order, whatever \<^verbatim>\<open>str.lower\<close> does to the entries. It is
  empty exactly when \<^verbatim>\<open>Boards\<close> is empty, and it is free of repetitions exactly when no two
  entries of \<^verbatim>\<open>Boards\<close> have the same lower-case form. In particular two ASCII entries that
  are equal up to letter case give a repetition.
\<close>

theorem board_list_is_lowercased_boards:
  assumes "kw \<in> set (fst (scrape_jobs_tool lower scrape_jobs Boards RoleKeywords Location
                            ResultCount PostedWithinDays Country))"
  shows "site_name kw = map lower Boards
     \<and> length (site_name kw) = length Boards
     \<and> (site_name kw = [] \<longleftrightarrow> Boards = [])
     \<and> (distinct (site_name kw) \<longleftrightarrow>
          (\<forall>i < length Boards. \<forall>j < length Boards.
             i \<noteq> j \<longrightarrow> lower (Boards ! i) \<noteq> lower (Boards ! j)))
     \<and> (ascii_exact lower \<longrightarrow>
          (\<forall>i < length Boards. \<forall>j < length Boards.
             i \<noteq> j \<and> is_ascii (Boards ! i) \<and> is_ascii (Boards ! j)
               \<and> eq_up_to_case (Boards ! i) (Boards ! j)
             \<longrightarrow> \<not> distinct (site_name kw)))"
proof -
  from assms have s: "site_name kw = map lower Boards"
    by (auto simp: scrape_jobs_tool_calls_eq split: if_splits)
  have d: "distinct (map lower Boards) \<longleftrightarrow>
          (\<forall>i < length Boards. \<forall>j < length Boards.
             i \<noteq> j \<longrightarrow> lower (Boards ! i) \<noteq> lower (Boards ! j))"
    by (simp add: distinct_conv_nth)
  have a: "\<not> distinct (map lower Boards)"
    if "ascii_exact lower" and "i < length Boards" and "j < length Boards" and "i \<noteq> j"
      and "is_ascii (Boards ! i)" and "is_ascii (Boards ! j)"
      and "eq_up_to_case (Boards ! i) (Boards ! j)" for i j
  proof -
    from that(5-7) have "ascii_lower (Boards ! i) = ascii_lower (Boards ! j)"
      by (simp add: eq_up_to_case_ascii)
    with that(1,5,6) have "lower (Boards ! i) = lower (Boards ! j)"
      by (simp add: ascii_exact_def)
    with that(2-4) show ?thesis
      unfolding d by blast
  qed
  from s d a show ?thesis by auto
qed

theorem board_list_is_lowercased_boards_witness:
  "linkedin_google_kwargs
     \<in> set (fst (scrape_jobs_tool ascii_lower no_jobs
                   [''LinkedIn'', ''Google''] None None 20 7 None))
   \<and> site_name linkedin_google_kwargs = map ascii_lower [''LinkedIn'', ''Google'']
   \<and> distinct (site_name linkedin_google_kwargs)"
proof -
  have m: "linkedin_google_kwargs
     \<in> set (fst (scrape_jobs_tool ascii_lower no_jobs
                   [''LinkedIn'', ''Google''] None None 20 7 None))"
    by (simp add: scrape_jobs_tool_calls_eq linkedin_google_kwargs_def
          google_search_term_of_def lower_eval)
  have d: "distinct (site_name linkedin_google_kwargs)"
    by (simp add: linkedin_google_kwargs_def)
  from board_list_is_lowercased_boards [OF m] m d show ?thesis by simp
qed

text \<open>
  Claim C4, counterexample. The claim speaks of parameters that are present. A parameter
  that is present but empty is treated like an absent one: with the board \<^verbatim>\<open>"Google"\<close> and
  \<^verbatim>\<open>RoleKeywords = ""\<close> the backend is called without a synthesized term, and with
  \<^verbatim>\<open>Location = ""\<close> the term has no \<^verbatim>\<open>" in "\<close> part.
\<close>

theorem synthesized_term_counterexample:
  "''google'' \<in> set (map ascii_lower [''Google''])
   \<and> map google_search_term
        (fst (scrape_jobs_tool ascii_lower no_jobs
                [''Google''] (Some '''') None 20 7 None))
       = [None]
   \<and> map google_search_term
        (fst (scrape_jobs_tool ascii_lower no_jobs
                [''Google''] (Some ''Backend Engineer'') (Some '''') 20 7 None))
       = [Some ''Backend Engineer jobs'']"
  by (simp add: scrape_jobs_tool_calls_eq google_search_term_of_def lower_eval)

text \<open>
  Claim C4, as amended. The code tests the truth value of both parameters. A synthesized
  term is produced if and only if \<open>''google''\<close> is among the lower-cased boards and
  \<^verbatim>\<open>RoleKeywords\<close> is present and not empty. It is then \<^verbatim>\<open>"{RoleKeywords} jobs"\<close> when
  \<^verbatim>\<open>Location\<close> is absent or empty and \<^verbatim>\<open>"{RoleKeywords} jobs in {Location}"\<close> when
  \<^verbatim>\<open>Location\<close> is present and not empty. With \<^verbatim>\<open>RoleKeywords\<close> absent or empty there is no
  term, whatever the boards. Every backend call carries this value.
\<close>

theorem synthesized_term_when_nonempty:
  "(google_search_term_of (map lower Boards) RoleKeywords Location \<noteq> None \<longleftrightarrow>
      ''google'' \<in> set (map lower Boards) \<and> RoleKeywords \<noteq> None \<and> RoleKeywords \<noteq> Some '''')
   \<and> (''google'' \<in> set (map lower Boards) \<and> r \<noteq> '''' \<longrightarrow>
        google_search_term_of (map lower Boards) (Some r) None = Some (r @ '' jobs'')
      \<and> google_search_term_of (map lower Boards) (Some r) (Some '''') = Some (r @ '' jobs'')
      \<and> (l \<noteq> '''' \<longrightarrow>
           google_search_term_of (map lower Boards) (Some r) (Some l)
             = Some (r @ '' jobs in '' @ l)))
   \<and> google_search_term_of (map lower Boards) None Location = None
   \<and> google_search_term_of (map lower Boards) (Some '''') Location = None
   \<and> (\<forall>kw \<in> set (fst (scrape_jobs_tool lower scrape_jobs Boards RoleKeywords Location ResultCount
                            PostedWithinDays Country)).
        google_search_term kw = google_search_term_of (map lower Boards) RoleKeywords Location)"
proof -
  have produced: "google_search_term_of (map lower Boards) RoleKeywords Location \<noteq> None \<longleftrightarrow>
      ''google'' \<in> set (map lower Boards) \<and> RoleKeywords \<noteq> None \<and> RoleKeywords \<noteq> Some ''''"
    by (cases RoleKeywords) (simp_all add: google_search_term_of_def)
  have passed: "\<forall>kw \<in> set (fst (scrape_jobs_tool lower scrape_jobs Boards RoleKeywords Location
                                   ResultCount PostedWithinDays Country)).
        google_search_term kw = google_search_term_of (map lower Boards) RoleKeywords Location"
    by (simp add: scrape_jobs_tool_calls_eq)
  show ?thesis
    using produced passed by (simp add: google_search_term_of_def)
qed

theorem synthesized_term_when_nonempty_witness:
  "map google_search_term
     (fst (scrape_jobs_tool ascii_lower no_jobs
             [''Google''] (Some ''Backend Engineer'') (Some ''Hanoi'') 20 7 None))
     = [Some ''Backend Engineer jobs in Hanoi'']
   \<and> google_search_term_of (map ascii_lower [''Google'']) (Some ''Backend Engineer'') None
     = Some ''Backend Engineer jobs''
   \<and> google_search_term_of (map ascii_lower [''Google'']) None (Some ''Hanoi'') = None"
proof -
  have g: "''google'' \<in> set (map ascii_lower [''Google''])" and i: "''indeed'' \<notin> set (map ascii_lower [''Google''])"
    by (simp_all add: lower_eval)
  have c: "fst (scrape_jobs_tool ascii_lower no_jobs
             [''Google''] (Some ''Backend Engineer'') (Some ''Hanoi'') 20 7 None) \<noteq> []"
    using i by (simp add: scrape_jobs_tool_calls_eq)
  from synthesized_term_when_nonempty
         [of ascii_lower "[''Google'']" "Some ''Backend Engineer''" "Some ''Hanoi''" "''Backend Engineer''" "''Hanoi''"
             no_jobs 20 7 None]
       g i c
  show ?thesis
    by (simp add: scrape_jobs_tool_calls_eq)
qed

text \<open>
  Claim C5. Every backend call carries \<^verbatim>\<open>hours_old = PostedWithinDays * 24\<close>, in unbounded
  integer arithmetic; exactly one call is made unless the request fails validation.
\<close>

theorem hours_old_is_days_times_24:
  "(\<forall>kw \<in> set (fst (scrape_jobs_tool lower scrape_jobs Boards RoleKeywords Location ResultCount
                         PostedWithinDays Country)).
      hours_old kw = PostedWithinDays * 24)
   \<and> map hours_old (fst (scrape_jobs_tool lower scrape_jobs Boards RoleKeywords Location ResultCount
                          PostedWithinDays Country))
       = (if ''indeed'' \<in> set (map lower Boards) \<and> \<not> truthy_opt Country then []
          else [PostedWithinDays * 24])"
  by (simp add: scrape_jobs_tool_calls_eq)

theorem hours_old_is_days_times_24_witness:
  "map hours_old (fst (scrape_jobs_tool ascii_lower no_jobs
                         [''LinkedIn''] None None 20 7 None)) = [168]"
proof -
  have h: "''indeed'' \<notin> set (map ascii_lower [''LinkedIn''])" by (simp add: lower_eval)
  show ?thesis
    using h hours_old_is_days_times_24
            [of ascii_lower no_jobs "[''LinkedIn'']" None None 20 7 None]
    by simp
qed

text \<open>
  Claim C7, counterexample. The claim says that two \<^verbatim>\<open>Boards\<close> lists that are equal up to
  letter case give the same board list. The code lower-cases with \<^verbatim>\<open>str.lower\<close>, which does
  not send every capital letter to one small form: \<^verbatim>\<open>a\<close> followed by a capital sigma and
  \<^verbatim>\<open>a\<close> followed by a small sigma are equal up to letter case, yet the first is passed
  to the backend with a final small sigma and the second with a small sigma.
\<close>

theorem board_casing_counterexample:
  "eq_up_to_case (''a'' @ capital_sigma) (''a'' @ small_sigma)
   \<and> map site_name (fst (scrape_jobs_tool lower_example no_jobs
                           [''a'' @ capital_sigma] None None 20 7 None))
     = [[[CHR ''a'', CHR 0xCF, CHR 0x82]]]
   \<and> map site_name (fst (scrape_jobs_tool lower_example no_jobs
                           [''a'' @ small_sigma] None None 20 7 None))
     = [[[CHR ''a'', CHR 0xCF, CHR 0x83]]]"
  by (simp add: scrape_jobs_tool_calls_eq lower_example_def case_eval lower_eval)

text \<open>
  Claim C7, as amended. Take two requests whose \<^verbatim>\<open>Boards\<close> lists are, entry by entry, ASCII
  texts equal up to letter case or texts with the same lower-case form under \<^verbatim>\<open>str.lower\<close>.
  Whatever their other parameters and whatever the backends, the board lists passed to the
  backend are the same; when the other parameters agree too, the backend calls are the same
  altogether. In every call the board list is the list of the \<^verbatim>\<open>Boards\<close> entries lower-cased,
  and there is no allow-list, so any identifier, known to the backend or not, is passed
  through at its position with nothing done to it but the lower-casing; an ASCII identifier
  is passed without upper-case letters, and as it is when it has none.
\<close>

theorem board_casing_irrelevant:
  assumes "ascii_exact lower"
    and "list_all2
           (\<lambda>s t. is_ascii s \<and> is_ascii t \<and> eq_up_to_case s t \<or> lower s = lower t)
           Boards1 Boards2"
  shows "(\<forall>kw1 \<in> set (fst (scrape_jobs_tool lower scrape_jobs1 Boards1 RoleKeywords1 Location1
                               ResultCount1 PostedWithinDays1 Country1)).
          \<forall>kw2 \<in> set (fst (scrape_jobs_tool lower scrape_jobs2 Boards2 RoleKeywords2 Location2
                               ResultCount2 PostedWithinDays2 Country2)).
            site_name kw1 = site_name kw2)
     \<and> fst (scrape_jobs_tool lower scrape_jobs1 Boards1 RoleKeywords1 Location1 ResultCount1
                PostedWithinDays1 Country1)
       = fst (scrape_jobs_tool lower scrape_jobs2 Boards2 RoleKeywords1 Location1 ResultCount1
                PostedWithinDays1 Country1)
     \<and> (\<forall>kw \<in> set (fst (scrape_jobs_tool lower scrape_jobs1 Boards1 RoleKeywords1 Location1
                              ResultCount1 PostedWithinDays1 Country1)).
          length (site_name kw) = length Boards1
        \<and> (\<forall>i < length Boards1.
              site_name kw ! i = lower (Boards1 ! i)
            \<and> (is_ascii (Boards1 ! i) \<longrightarrow> (\<forall>c \<in> set (site_name kw ! i). \<not> is_upper c))
            \<and> (is_ascii (Boards1 ! i) \<and> (\<forall>c \<in> set (Boards1 ! i). \<not> is_upper c)
                 \<longrightarrow> site_name kw ! i = Boards1 ! i)))"
proof -
  have "lower s = lower t"
    if "is_ascii s \<and> is_ascii t \<and> eq_up_to_case s t \<or> lower s = lower t" for s t
    using that assms(1) by (auto simp: eq_up_to_case_ascii ascii_exact_def)
  with assms(2) have "list_all2 (\<lambda>s t. lower s = lower t) Boards1 Boards2"
    by (rule list_all2_mono)
  then have "list_all2 (=) (map lower Boards1) (map lower Boards2)"
    by (simp add: list_all2_map1 list_all2_map2)
  then have same: "map lower Boards1 = map lower Boards2"
    by (simp add: list.rel_eq)
  have folded: "\<forall>c \<in> set (lower b). \<not> is_upper c" if "is_ascii b" for b
    using that assms(1) by (simp add: ascii_exact_def ascii_lower_no_upper)
  have fixed: "lower b = b" if "is_ascii b" and "\<forall>c \<in> set b. \<not> is_upper c" for b
    using that assms(1) by (simp add: ascii_exact_def ascii_lower_fixed)
  have calls: "fst (scrape_jobs_tool lower scrape_jobs1 Boards1 RoleKeywords1 Location1
                ResultCount1 PostedWithinDays1 Country1)
       = fst (scrape_jobs_tool lower scrape_jobs2 Boards2 RoleKeywords1 Location1 ResultCount1
                PostedWithinDays1 Country1)"
    by (simp only: scrape_jobs_tool_calls_eq same)
  have each1: "site_name kw = map lower Boards1"
    if "kw \<in> set (fst (scrape_jobs_tool lower scrape_jobs1 Boards1 RoleKeywords1 Location1
                         ResultCount1 PostedWithinDays1 Country1))" for kw
    using that by (auto simp: scrape_jobs_tool_calls_eq split: if_splits)
  have each2: "site_name kw = map lower Boards2"
    if "kw \<in> set (fst (scrape_jobs_tool lower scrape_jobs2 Boards2 RoleKeywords2 Location2
                         ResultCount2 PostedWithinDays2 Country2))" for kw
    using that by (auto simp: scrape_jobs_tool_calls_eq split: if_splits)
  have lists: "\<forall>kw1 \<in> set (fst (scrape_jobs_tool lower scrape_jobs1 Boards1 RoleKeywords1
                               Location1 ResultCount1 PostedWithinDays1 Country1)).
          \<forall>kw2 \<in> set (fst (scrape_jobs_tool lower scrape_jobs2 Boards2 RoleKeywords2 Location2
                               ResultCount2 PostedWithinDays2 Country2)).
            site_name kw1 = site_name kw2"
    using each1 each2 same by simp
  have shape: "\<forall>kw \<in> set (fst (scrape_jobs_tool lower scrape_jobs1 Boards1 RoleKeywords1
                              Location1 ResultCount1 PostedWithinDays1 Country1)).
          length (site_name kw) = length Boards1
        \<and> (\<forall>i < length Boards1.
              site_name kw ! i = lower (Boards1 ! i)
            \<and> (is_ascii (Boards1 ! i) \<longrightarrow> (\<forall>c \<in> set (site_name kw ! i). \<not> is_upper c))
            \<and> (is_ascii (Boards1 ! i) \<and> (\<forall>c \<in> set (Boards1 ! i). \<not> is_upper c)
                 \<longrightarrow> site_name kw ! i = Boards1 ! i))"
    using folded fixed by (auto simp: each1)
  from lists calls shape show ?thesis by (intro conjI)
qed

theorem board_casing_irrelevant_witness:
  "ascii_exact ascii_lower
   \<and> eq_up_to_case ''LinkedIn'' ''linkedin'' \<and> eq_up_to_case ''Monster'' ''MONSTER''
   \<and> map site_name (fst (scrape_jobs_tool ascii_lower no_jobs
                           [''LinkedIn'', ''Monster''] None None 20 7 None))
     = [[''linkedin'', ''monster'']]
   \<and> map site_name (fst (scrape_jobs_tool ascii_lower failing_backend
                           [''linkedin'', ''MONSTER''] None None 20 7 None))
     = [[''linkedin'', ''monster'']]"
proof -
  have x: "ascii_exact ascii_lower"
    by (simp add: ascii_exact_def)
  have a: "is_ascii ''LinkedIn''" "is_ascii ''linkedin''" "is_ascii ''Monster''" "is_ascii ''MONSTER''"
    by (simp_all add: is_ascii_def)
  have q: "eq_up_to_case ''LinkedIn'' ''linkedin''" "eq_up_to_case ''Monster'' ''MONSTER''"
    by (simp_all add: case_eval lower_eval)
  have h: "list_all2
             (\<lambda>s t. is_ascii s \<and> is_ascii t \<and> eq_up_to_case s t \<or> ascii_lower s = ascii_lower t)
             [''LinkedIn'', ''Monster''] [''linkedin'', ''MONSTER'']"
    using a q by simp
  have e: "map site_name (fst (scrape_jobs_tool ascii_lower no_jobs
                           [''LinkedIn'', ''Monster''] None None 20 7 None))
     = [[''linkedin'', ''monster'']]"
    by (simp add: scrape_jobs_tool_calls_eq lower_eval)
  from board_casing_irrelevant
         [OF x h, of no_jobs None None 20 7 None failing_backend None None 20 7 None]
  have "fst (scrape_jobs_tool ascii_lower no_jobs [''LinkedIn'', ''Monster''] None None 20 7 None)
      = fst (scrape_jobs_tool ascii_lower failing_backend [''linkedin'', ''MONSTER'']
               None None 20 7 None)"
    by (elim conjE)
  with x q e show ?thesis by simp
qed

section \<open>Result side\<close>

text \<open>
  Claim C2, at the row on which the code departs from it. The claim is that \<^verbatim>\<open>Salary\<close> is
  the text \<^verbatim>\<open>"{min}-{max} {currency} ({interval})"\<close> (with an en dash between the amounts) when
  both amounts are there, and \<^verbatim>\<open>None\<close> when one is missing or zero. The code tests the truth
  value of the two cells. For a bound that is \<^verbatim>\<open>None\<close> this gives \<^verbatim>\<open>None\<close>, as claimed. A
  missing bound that reaches the loop as the float NaN is truthy, so the row with only a
  minimum gets a \<^verbatim>\<open>Salary\<close> text that ends in \<^verbatim>\<open>nan USD (yearly)\<close>.
\<close>

theorem nan_bound_gives_salary_text:
  "map_of (Jobs (result_normalizer [row_with_nan_max]) ! 0) ''Salary''
     = Some (PyStr (''80000.0'' @ [CHR 0xE2, CHR 0x80, CHR 0x93] @ ''nan USD (yearly)''))
   \<and> map_of (Jobs (result_normalizer [example_row\<lparr>max_amount := PyNone\<rparr>]) ! 0) ''Salary''
     = Some PyNone
   \<and> map_of (Jobs (result_normalizer [example_row]) ! 0) ''Salary''
     = Some (PyStr (''80000'' @ [CHR 0xE2, CHR 0x80, CHR 0x93] @ ''100000 USD (yearly)''))"
  by (simp add: result_normalizer_eq normalize_row_def row_with_nan_max_def example_row_def
        str_eval)

theorem nan_bound_gives_salary_text_witness:
  "map_of (Jobs (result_normalizer [row_with_nan_max]) ! 0) ''Salary'' \<noteq> Some PyNone"
  using nan_bound_gives_salary_text by simp

text \<open>
  Claim C6. Whenever the tool returns a result, its \<^verbatim>\<open>Count\<close> is the length of its \<^verbatim>\<open>Jobs\<close>.
\<close>

theorem count_is_length_of_jobs:
  assumes "scrape_jobs_tool lower scrape_jobs Boards RoleKeywords Location ResultCount PostedWithinDays Country
             = (calls, Inr out)"
  shows "Count out = int (length (Jobs out))"
proof -
  from assms obtain jobs where "out = result_normalizer jobs"
    by (auto simp: scrape_jobs_tool_def split: sum.splits)
  then show ?thesis by (simp add: result_normalizer_eq)
qed

theorem count_is_length_of_jobs_witness:
  "snd (scrape_jobs_tool ascii_lower (\<lambda>kw. Inr [example_row, example_row] :: unit + raw_listing list)
          [''LinkedIn''] None None 20 7 None)
     = Inr (result_normalizer [example_row, example_row])
   \<and> Count (result_normalizer [example_row, example_row]) = 2
   \<and> length (Jobs (result_normalizer [example_row, example_row])) = 2"
proof -
  let ?be = "\<lambda>kw. Inr [example_row, example_row] :: unit + raw_listing list"
  let ?t = "scrape_jobs_tool ascii_lower ?be [''LinkedIn''] None None 20 7 None"
  have h: "''indeed'' \<notin> set (map ascii_lower [''LinkedIn''])" by (simp add: lower_eval)
  have s: "snd ?t = Inr (result_normalizer [example_row, example_row])"
    by (simp add: scrape_jobs_tool_no_indeed [OF h] Let_def)
  then have e: "?t = (fst ?t, Inr (result_normalizer [example_row, example_row]))"
    by (simp add: prod_eq_iff)
  have n: "length (Jobs (result_normalizer [example_row, example_row])) = 2"
    by (simp add: result_normalizer_def)
  from count_is_length_of_jobs [OF e] n s show ?thesis
    by simp
qed

text \<open>
  Claim C8. The listings are in one-to-one correspondence with the rows, in the order of
  the rows. The listing at position \<open>i\<close> has the eleven keys of the schema; \<^verbatim>\<open>PostedDate\<close>
  is the text of the row's \<^verbatim>\<open>date_posted\<close>, and the nine renamed columns are copied
  unchanged.
\<close>

theorem one_listing_per_row_in_order:
  "length (Jobs (result_normalizer jobs)) = length jobs
   \<and> (\<forall>i < length jobs.
        map fst (Jobs (result_normalizer jobs) ! i)
          = [''Title'', ''Company'', ''Location'', ''PostedDate'', ''JobType'', ''ExperienceRange'',
             ''Remote'', ''Salary'', ''Board'', ''JobURL'', ''CompanyURL'']
      \<and> map_of (Jobs (result_normalizer jobs) ! i) ''PostedDate''
          = Some (PyStr (py_str (date_posted (jobs ! i))))
      \<and> map_of (Jobs (result_normalizer jobs) ! i) ''Title'' = Some (title (jobs ! i))
      \<and> map_of (Jobs (result_normalizer jobs) ! i) ''Company'' = Some (company (jobs ! i))
      \<and> map_of (Jobs (result_normalizer jobs) ! i) ''Location''
          = Some (raw_listing.location (jobs ! i))
      \<and> map_of (Jobs (result_normalizer jobs) ! i) ''JobType'' = Some (job_type (jobs ! i))
      \<and> map_of (Jobs (result_normalizer jobs) ! i) ''ExperienceRange''
          = Some (experience_range (jobs ! i))
      \<and> map_of (Jobs (result_normalizer jobs) ! i) ''Remote'' = Some (is_remote (jobs ! i))
      \<and> map_of (Jobs (result_normalizer jobs) ! i) ''Board'' = Some (site (jobs ! i))
      \<and> map_of (Jobs (result_normalizer jobs) ! i) ''JobURL'' = Some (job_url (jobs ! i))
      \<and> map_of (Jobs (result_normalizer jobs) ! i) ''CompanyURL''
          = Some (company_url (jobs ! i)))"
  by (simp add: result_normalizer_eq normalize_row_def)

theorem one_listing_per_row_in_order_witness:
  "length (Jobs (result_normalizer [example_row, example_row\<lparr>title := PyStr ''Data Engineer''\<rparr>])) = 2
   \<and> map_of (Jobs (result_normalizer [example_row, example_row\<lparr>title := PyStr ''Data Engineer''\<rparr>]) ! 0)
        ''Title'' = Some (PyStr ''Backend Engineer'')
   \<and> map_of (Jobs (result_normalizer [example_row, example_row\<lparr>title := PyStr ''Data Engineer''\<rparr>]) ! 1)
        ''Title'' = Some (PyStr ''Data Engineer'')
   \<and> map_of (Jobs (result_normalizer [example_row, example_row\<lparr>title := PyStr ''Data Engineer''\<rparr>]) ! 1)
        ''PostedDate'' = Some (PyStr ''2025-01-15'')"
  using one_listing_per_row_in_order [of "[example_row, example_row\<lparr>title := PyStr ''Data Engineer''\<rparr>]"]
  by (simp add: example_row_def)

text \<open>
  Claim C9. Lines 98 to 124 are read here as statements on the frame of local variables.
  Whatever the frame holds before line 98, in particular the results that an earlier run
  has left in it, the result is the one computed from the rows alone. Running the lines
  again on the frame that the first run leaves gives the same result, and so do two frames
  that hold the same rows. This rests on line 98, which empties \<^verbatim>\<open>results\<close> at each run, and
  on the loop reading nothing but the row at hand.
\<close>

theorem result_normalizer_keeps_no_state:
  "snd (run_result_normalizer st) = result_normalizer (v_jobs st)
   \<and> snd (run_result_normalizer (fst (run_result_normalizer st))) = snd (run_result_normalizer st)
   \<and> (v_jobs st' = v_jobs st \<longrightarrow>
        snd (run_result_normalizer st') = snd (run_result_normalizer st))"
proof -
  have out: "snd (run_result_normalizer s) = result_normalizer (v_jobs s)" for s :: "'c frame_scheme"
    by (simp add: run_result_normalizer_def Let_def for_each_row_results result_normalizer_eq)
  have rows: "v_jobs (fst (run_result_normalizer st)) = v_jobs st"
    by (simp add: run_result_normalizer_def Let_def for_each_row_jobs)
  show ?thesis
    by (simp add: out rows)
qed

theorem result_normalizer_keeps_no_state_witness:
  "v_results used_frame \<noteq> []
   \<and> Count (snd (run_result_normalizer used_frame)) = 2
   \<and> length (Jobs (snd (run_result_normalizer used_frame))) = 2
   \<and> snd (run_result_normalizer (fst (run_result_normalizer used_frame)))
     = snd (run_result_normalizer used_frame)"
proof -
  have j: "v_jobs used_frame = [example_row, example_row]"
    and r: "v_results used_frame \<noteq> []"
    by (simp_all add: used_frame_def)
  from result_normalizer_keeps_no_state [of used_frame used_frame] j r
  show ?thesis
    by (simp add: result_normalizer_eq)
qed

text \<open>
  Claim C10. With truthy \<^verbatim>\<open>min_amount\<close> and \<^verbatim>\<open>max_amount\<close> the \<^verbatim>\<open>Salary\<close> text is produced
  whatever \<^verbatim>\<open>currency\<close> and \<^verbatim>\<open>interval\<close> hold: their text is put into the string as it
  is, and \<^verbatim>\<open>None\<close> reads \<^verbatim>\<open>"None"\<close>.
\<close>

theorem salary_text_takes_currency_and_interval_verbatim:
  assumes "i < length jobs" and "row = jobs ! i"
    and "listing = Jobs (result_normalizer jobs) ! i"
    and "truthy (min_amount row)" and "truthy (max_amount row)"
  shows "map_of listing ''Salary'' =
           Some (PyStr (py_str (min_amount row) @ en_dash @ py_str (max_amount row) @ '' ''
                        @ py_str (currency row) @ '' ('' @ py_str (interval row) @ '')''))
     \<and> (currency row = PyNone \<and> interval row = PyNone \<longrightarrow>
          map_of listing ''Salary'' =
            Some (PyStr (py_str (min_amount row) @ en_dash @ py_str (max_amount row)
                         @ '' None (None)'')))"
proof -
  from assms(1-3) have "listing = normalize_row row"
    by (simp add: result_normalizer_eq)
  with assms(4,5) show ?thesis
    by (simp add: normalize_row_def)
qed

theorem salary_text_takes_currency_and_interval_verbatim_witness:
  "truthy (min_amount (example_row\<lparr>currency := PyNone, interval := PyNone\<rparr>))
   \<and> truthy (max_amount (example_row\<lparr>currency := PyNone, interval := PyNone\<rparr>))
   \<and> map_of (Jobs (result_normalizer [example_row\<lparr>currency := PyNone, interval := PyNone\<rparr>]) ! 0)
        ''Salary''
     = Some (PyStr (''80000'' @ [CHR 0xE2, CHR 0x80, CHR 0x93] @ ''100000 None (None)''))"
proof -
  let ?row = "example_row\<lparr>currency := PyNone, interval := PyNone\<rparr>"
  have mn: "truthy (min_amount ?row)" and mx: "truthy (max_amount ?row)"
    by (simp_all add: example_row_def)
  from salary_text_takes_currency_and_interval_verbatim
         [of 0 "[?row]" ?row "Jobs (result_normalizer [?row]) ! 0", OF _ _ _ mn mx]
       mn mx
  show ?thesis
    by (simp add: example_row_def str_eval)
qed

end
